theory Spec2Isabelle
  imports Main
begin

section \<open>Account validation controller: data model\<close>

text \<open>
  The embedding follows \<^verbatim>\<open>pkg/controller/validation/account_validation_controller.go\<close>.
  Go strings are \<^typ>\<open>string\<close>; a Go \<^verbatim>\<open>error\<close> that may be nil is an
  \<open>error option\<close> (\<open>None\<close> is nil).
\<close>

datatype ValidationError = InvalidAccount | AccountMoveFailed | MissingTag | IncorrectOwnerTag

text \<open>
  Error values: \<open>ErrorsNew\<close> is \<^verbatim>\<open>errors.New\<close>, \<open>SyntaxError\<close> is the error of
  \<^verbatim>\<open>strconv.ParseBool\<close> (function name and offending input), and
  \<open>AccountValidationError\<close> is the struct of that name with its fields \<^verbatim>\<open>Type\<close> and
  \<^verbatim>\<open>Err\<close>. The errors of the collaborators are values of the same type.
\<close>

datatype error =
    ErrorsNew string
  | SyntaxError string string
  | AccountValidationError ValidationError error

text \<open>
  A run-time panic of Go is a value of the model: indexing a slice out of range (index and
  length), and calling a method on a nil interface.
\<close>

datatype runtime_panic = IndexOutOfRange nat nat | NilDereference

datatype 'a outcome = Return 'a | Panic runtime_panic

record MoveAccountInput =
  AccountId :: string
  DestinationParentId :: string
  SourceParentId :: string

text \<open>
  The requests sent to the organizations service, in the order they are issued. Every
  function below takes the calls issued so far and returns them extended.
\<close>

datatype api_call =
    ListParentsCall string
  | MoveAccountCall MoveAccountInput
  | ListTagsForResourceCall string

text \<open>
  \<^verbatim>\<open>awsclient.Client\<close> is an interface of the repository whose implementation talks to
  the cloud provider. The three methods the controller uses are taken as the answers of the
  service: the identifiers of the parents of a child, the error (or nil) of a move, and the
  tags of a resource as key and value pairs in the order returned. The pointer fields of the
  SDK's answers are taken as populated. Within one reconciliation no parent query follows a
  move, so the answers are functions of the request. A nil interface value is \<open>None\<close> of
  \<open>aws_client option\<close>.
\<close>

record aws_client =
  aws_ListParents :: "string \<Rightarrow> error + string list"
  aws_MoveAccount :: "MoveAccountInput \<Rightarrow> error option"
  aws_ListTagsForResource :: "string \<Rightarrow> error + (string \<times> string) list"

text \<open>
  Modelled from the spec: the account resource of \<^verbatim>\<open>pkg/apis/aws/v1alpha1\<close>, with its
  cloud-provider account identifier and the answers of its methods \<^verbatim>\<open>IsBYOC()\<close> and
  \<^verbatim>\<open>IsOwnedByAccountPool()\<close> as the two flags the spec gives an account.
\<close>

record Account =
  AwsAccountID :: string
  IsBYOC :: bool
  IsOwnedByAccountPool :: bool

text \<open>The package-level variables \<^verbatim>\<open>accountMoveEnabled\<close> and \<^verbatim>\<open>accountTagEnabled\<close>.\<close>

record gates =
  accountMoveEnabled :: bool
  accountTagEnabled :: bool

definition initial_gates :: gates where
  "initial_gates = \<lparr>accountMoveEnabled = False, accountTagEnabled = False\<rparr>"

text \<open>Durations are nanoseconds, as \<^verbatim>\<open>time.Duration\<close> is.\<close>

definition Minute :: int where
  "Minute = 60 * 1000000000"

definition moveWaitTime :: int where
  "moveWaitTime = 5 * Minute"

definition ownerKey :: string where
  "ownerKey = ''owner''"

section \<open>Ancestry walk and pool membership\<close>

text \<open>
  \<^verbatim>\<open>ParentsTillPredicate\<close> recurses without a bound, so the model is a partial function:
  \<open>None\<close> is a walk that never returns. The slice behind the pointer \<^verbatim>\<open>parents\<close> is
  passed in and returned next to the error.
\<close>

partial_function (option) ParentsTillPredicate ::
  "string \<Rightarrow> aws_client option \<Rightarrow> (string \<Rightarrow> bool) \<Rightarrow> string list \<Rightarrow> api_call list
     \<Rightarrow> ((error option \<times> string list) outcome \<times> api_call list) option"
where
  "ParentsTillPredicate awsId client p parents calls =
    (case client of
       None \<Rightarrow> Some (Panic NilDereference, calls)
     | Some c \<Rightarrow>
        (case aws_ListParents c awsId of
           Inl err \<Rightarrow> Some (Return (Some err, parents), calls @ [ListParentsCall awsId])
         | Inr Parents \<Rightarrow>
            if length Parents = 0 then
              Some (Return (None, parents), calls @ [ListParentsCall awsId])
            else if length Parents > 1 then
              Some (Return (Some (ErrorsNew (''More than 1 parents found for Id '' @ awsId)), parents),
                    calls @ [ListParentsCall awsId])
            else
              (let id = Parents ! 0; parents' = parents @ [id] in
               if p id then Some (Return (None, parents'), calls @ [ListParentsCall awsId])
               else ParentsTillPredicate id client p parents' (calls @ [ListParentsCall awsId]))))"

declare ParentsTillPredicate.simps [code]

definition IsAccountInPoolOU ::
  "Account \<Rightarrow> aws_client option \<Rightarrow> (string \<Rightarrow> bool) \<Rightarrow> api_call list
     \<Rightarrow> (bool outcome \<times> api_call list) option"
where
  "IsAccountInPoolOU account client isPoolOU calls =
    (if AwsAccountID account = '''' then Some (Return False, calls)
     else
       (case ParentsTillPredicate (AwsAccountID account) client isPoolOU [] calls of
          None \<Rightarrow> None
        | Some (Panic pn, calls') \<Rightarrow> Some (Panic pn, calls')
        | Some (Return (err, parentList), calls') \<Rightarrow>
            if err \<noteq> None then Some (Return False, calls')
            else if length parentList = 1 then Some (Return True, calls')
            else Some (Return False, calls')))"

section \<open>Account mover\<close>

definition MoveAccount ::
  "string \<Rightarrow> aws_client option \<Rightarrow> string \<Rightarrow> bool \<Rightarrow> api_call list
     \<Rightarrow> error option outcome \<times> api_call list"
where
  "MoveAccount awsAccountId client targetOU moveAccount calls =
    (case client of
       None \<Rightarrow> (Panic NilDereference, calls)
     | Some c \<Rightarrow>
        (case aws_ListParents c awsAccountId of
           Inl err \<Rightarrow> (Return (Some err), calls @ [ListParentsCall awsAccountId])
         | Inr Parents \<Rightarrow>
            if length Parents \<le> 0 then
              (Panic (IndexOutOfRange 0 (length Parents)), calls @ [ListParentsCall awsAccountId])
            else
              (let oldOu = Parents ! 0 in
               if moveAccount then
                 (let moveAccountInput =
                        \<lparr>AccountId = awsAccountId, DestinationParentId = targetOU,
                         SourceParentId = oldOu\<rparr>;
                      calls' = calls @ [ListParentsCall awsAccountId, MoveAccountCall moveAccountInput]
                  in case aws_MoveAccount c moveAccountInput of
                       Some err \<Rightarrow> (Return (Some err), calls')
                     | None \<Rightarrow> (Return None, calls'))
               else (Return None, calls @ [ListParentsCall awsAccountId]))))"

section \<open>Tag validator\<close>

text \<open>The loop over \<^verbatim>\<open>resp.Tags\<close>, with the return that follows it as the empty case.\<close>

fun ValidateAccountTags_loop :: "string \<Rightarrow> (string \<times> string) list \<Rightarrow> error option" where
  "ValidateAccountTags_loop shardName [] =
     Some (AccountValidationError MissingTag (ErrorsNew ''Account is not tagged with an owner''))"
| "ValidateAccountTags_loop shardName ((key, val) # tags) =
     (if ownerKey = key then
        (if shardName \<noteq> val then
           Some (AccountValidationError IncorrectOwnerTag
                   (ErrorsNew ''Account is not tagged with the correct owner''))
         else None)
      else ValidateAccountTags_loop shardName tags)"

definition ValidateAccountTags ::
  "aws_client option \<Rightarrow> string \<Rightarrow> string \<Rightarrow> bool \<Rightarrow> api_call list
     \<Rightarrow> error option outcome \<times> api_call list"
where
  "ValidateAccountTags client accountId shardName tagEnabled calls =
    (case client of
       None \<Rightarrow> (Panic NilDereference, calls)
     | Some c \<Rightarrow>
        (case aws_ListTagsForResource c accountId of
           Inl err \<Rightarrow> (Return (Some err), calls @ [ListTagsForResourceCall accountId])
         | Inr Tags \<Rightarrow>
            (Return (ValidateAccountTags_loop shardName Tags),
             calls @ [ListTagsForResourceCall accountId])))"

section \<open>Validation orchestrator\<close>

text \<open>
  \<^verbatim>\<open>ValidateAccountOU\<close> reads the package-level gate \<^verbatim>\<open>accountMoveEnabled\<close>, so the
  model takes the gates as an argument. Its receiver is not used.
\<close>

definition ValidateAccountOU ::
  "gates \<Rightarrow> aws_client option \<Rightarrow> Account \<Rightarrow> string \<Rightarrow> api_call list
     \<Rightarrow> (error option outcome \<times> api_call list) option"
where
  "ValidateAccountOU g awsClient account poolOU calls =
    (if IsBYOC account then
       Some (Return (Some (AccountValidationError InvalidAccount
                             (ErrorsNew ''Account is a CCS account''))), calls)
     else if IsOwnedByAccountPool account then
       Some (Return (Some (AccountValidationError InvalidAccount
                             (ErrorsNew ''Account is in an account pool''))), calls)
     else
       (case IsAccountInPoolOU account awsClient (\<lambda>s. s = poolOU) calls of
          None \<Rightarrow> None
        | Some (Panic pn, calls') \<Rightarrow> Some (Panic pn, calls')
        | Some (Return inPool, calls') \<Rightarrow>
            if inPool then Some (Return None, calls')
            else
              (case MoveAccount (AwsAccountID account) awsClient poolOU (accountMoveEnabled g) calls' of
                 (Panic pn, calls'') \<Rightarrow> Some (Panic pn, calls'')
               | (Return (Some err), calls'') \<Rightarrow>
                   Some (Return (Some (AccountValidationError AccountMoveFailed err)), calls'')
               | (Return None, calls'') \<Rightarrow> Some (Return None, calls''))))"

text \<open>
  \<^verbatim>\<open>strconv.ParseBool\<close> of the Go standard library, by its documentation: it accepts
  1, t, T, TRUE, true, True, 0, f, F, FALSE, false, False, and any other value is an error.
\<close>

definition ParseBool :: "string \<Rightarrow> error + bool" where
  "ParseBool str =
    (if str \<in> set [''1'', ''t'', ''T'', ''TRUE'', ''true'', ''True''] then Inr True
     else if str \<in> set [''0'', ''f'', ''F'', ''FALSE'', ''false'', ''False''] then Inr False
     else Inl (SyntaxError ''ParseBool'' str))"

text \<open>Reading a Go map of strings: a key that is absent reads as the empty string.\<close>

definition Data :: "(string \<rightharpoonup> string) \<Rightarrow> string \<Rightarrow> string" where
  "Data cm key = (case cm key of None \<Rightarrow> [] | Some v \<Rightarrow> v)"

text \<open>
  The type assertion \<^verbatim>\<open>err.(*AccountValidationError)\<close> followed by a read of
  \<^verbatim>\<open>Type\<close>: the kind of a classified error, \<open>None\<close> for nil and for any other error.
\<close>

fun classification :: "error option \<Rightarrow> ValidationError option" where
  "classification None = None"
| "classification (Some (AccountValidationError t e)) = Some t"
| "classification (Some (ErrorsNew m)) = None"
| "classification (Some (SyntaxError f m)) = None"

text \<open>
  Modelled from the spec: the helpers \<^verbatim>\<open>utils.DoNotRequeue\<close> and
  \<^verbatim>\<open>utils.RequeueAfter\<close> are not part of the source at hand; the spec gives the
  reconciliation two answers, no-requeue and requeue-after a duration.
\<close>

datatype reconcile_result = DoNotRequeue | RequeueAfter int

text \<open>
  The reconciler with its collaborators, whose code is not part of the source at hand:
  the answer of \<^verbatim>\<open>r.Client.Get\<close> for a request, the answer of
  \<^verbatim>\<open>utils.GetOperatorConfigMap\<close> (the \<^verbatim>\<open>Data\<close> of the config map), and the pair
  that \<^verbatim>\<open>r.awsClientBuilder.GetClient\<close> returns, whose client may be nil.
\<close>

record ValidateAccount =
  Client_Get :: "string \<Rightarrow> error + Account"
  GetOperatorConfigMap :: "error + (string \<rightharpoonup> string)"
  GetClient :: "aws_client option \<times> error option"
  shardName :: string

text \<open>
  \<^verbatim>\<open>Reconcile\<close> returns the gates as it leaves them, next to its answer: the gates are
  written before the ancestry walk starts, so they are known also for a run that never
  returns (\<open>None\<close>).
\<close>

definition Reconcile ::
  "ValidateAccount \<Rightarrow> string \<Rightarrow> gates \<Rightarrow> api_call list
     \<Rightarrow> gates \<times> (reconcile_result outcome \<times> api_call list) option"
where
  "Reconcile r request g calls =
    (case Client_Get r request of
       Inl err \<Rightarrow> (g, Some (Return DoNotRequeue, calls))
     | Inr account \<Rightarrow>
        (case GetOperatorConfigMap r of
           Inl err \<Rightarrow> (g, Some (Return (RequeueAfter (5 * Minute)), calls))
         | Inr cm \<Rightarrow>
            (let g1 = (case ParseBool (Data cm ''feature.validation_move_account'') of
                         Inl err \<Rightarrow> g
                       | Inr enabled \<Rightarrow> g\<lparr>accountMoveEnabled := enabled\<rparr>);
                 g2 = (case ParseBool (Data cm ''feature.validation_tag_account'') of
                         Inl err \<Rightarrow> g1
                       | Inr enabled \<Rightarrow> g1\<lparr>accountTagEnabled := enabled\<rparr>);
                 awsClient = fst (GetClient r)
             in (g2,
                 (case ValidateAccountOU g2 awsClient account (Data cm ''root'') calls of
                    None \<Rightarrow> None
                  | Some (Panic pn, calls') \<Rightarrow> Some (Panic pn, calls')
                  | Some (Return err, calls') \<Rightarrow>
                      if classification err = Some InvalidAccount then
                        Some (Return DoNotRequeue, calls')
                      else if classification err = Some AccountMoveFailed then
                        Some (Return (RequeueAfter moveWaitTime), calls')
                      else
                        (case ValidateAccountTags awsClient (AwsAccountID account) (shardName r)
                                (accountTagEnabled g2) calls' of
                           (Panic pn, calls'') \<Rightarrow> Some (Panic pn, calls'')
                         | (Return err', calls'') \<Rightarrow>
                             if classification err' = Some MissingTag
                                \<or> classification err' = Some IncorrectOwnerTag
                             then Some (Return DoNotRequeue, calls'')
                             else Some (Return DoNotRequeue, calls'')))))))"

section \<open>Vocabulary of the properties\<close>

text \<open>
  The reference recursion of the ancestry walker, following the words of the spec
  (section 4.1) for the answers with zero parents and with exactly one parent:
  \<open>walkAncestors c stopPredicate nodeId path path'\<close> holds when the walk from \<open>nodeId\<close>
  with the path \<open>path\<close> accumulated so far returns the path \<open>path'\<close> with no error.
\<close>

inductive walkAncestors ::
  "aws_client \<Rightarrow> (string \<Rightarrow> bool) \<Rightarrow> string \<Rightarrow> string list \<Rightarrow> string list \<Rightarrow> bool"
  for c :: aws_client and stopPredicate :: "string \<Rightarrow> bool"
where
  zero_parents:
    "aws_ListParents c nodeId = Inr [] \<Longrightarrow> walkAncestors c stopPredicate nodeId path path"
| one_parent_stop:
    "aws_ListParents c nodeId = Inr [p] \<Longrightarrow> stopPredicate p \<Longrightarrow>
     walkAncestors c stopPredicate nodeId path (path @ [p])"
| one_parent_recurse:
    "aws_ListParents c nodeId = Inr [p] \<Longrightarrow> \<not> stopPredicate p \<Longrightarrow>
     walkAncestors c stopPredicate p (path @ [p]) path' \<Longrightarrow>
     walkAncestors c stopPredicate nodeId path path'"

code_pred walkAncestors .

text \<open>
  \<open>hops c p n ms\<close>: climbing from the node \<open>n\<close>, the service answers each query with
  exactly one parent, these parents are \<open>ms\<close> in order, and the predicate \<open>p\<close> rejects
  every one of them.
\<close>

fun hops :: "aws_client \<Rightarrow> (string \<Rightarrow> bool) \<Rightarrow> string \<Rightarrow> string list \<Rightarrow> bool" where
  "hops c p n [] = True"
| "hops c p n (m # ms) = (aws_ListParents c n = Inr [m] \<and> \<not> p m \<and> hops c p m ms)"

fun is_MoveAccountCall :: "api_call \<Rightarrow> bool" where
  "is_MoveAccountCall (MoveAccountCall i) = True"
| "is_MoveAccountCall (ListParentsCall n) = False"
| "is_MoveAccountCall (ListTagsForResourceCall n) = False"

fun is_ListTagsForResourceCall :: "api_call \<Rightarrow> bool" where
  "is_ListTagsForResourceCall (ListTagsForResourceCall n) = True"
| "is_ListTagsForResourceCall (ListParentsCall n) = False"
| "is_ListTagsForResourceCall (MoveAccountCall i) = False"

text \<open>\<^verbatim>\<open>strconv.FormatBool\<close>, the text of a gate's value.\<close>

definition FormatBool :: "bool \<Rightarrow> string" where
  "FormatBool b = (if b then ''true'' else ''false'')"

subsection \<open>An example organization\<close>

text \<open>
  The accounts 111, 112 and 113 sit directly under the pool OU \<open>ou-pool\<close>, whose parent is
  the root \<open>r-root\<close>; the account 222 sits directly under the root; the account 333 sits in
  another OU under the root; the account 444 sits in an OU for which the service reports
  two parents; the service reports no parent for the root and for the account 666, and
  fails for every other identifier.
\<close>

definition example_parents :: "string \<Rightarrow> error + string list" where
  "example_parents childId =
    (if childId \<in> set [''111'', ''112'', ''113''] then Inr [''ou-pool'']
     else if childId = ''222'' then Inr [''r-root'']
     else if childId = ''333'' then Inr [''ou-other'']
     else if childId = ''444'' then Inr [''ou-twin'']
     else if childId = ''ou-twin'' then Inr [''ou-a'', ''ou-b'']
     else if childId \<in> set [''ou-pool'', ''ou-other''] then Inr [''r-root'']
     else if childId \<in> set [''r-root'', ''666''] then Inr []
     else Inl (ErrorsNew ''ChildNotFoundException''))"

definition example_tags :: "string \<Rightarrow> error + (string \<times> string) list" where
  "example_tags resourceId =
    (if resourceId = ''111'' then Inr [(''team'', ''x''), (''owner'', ''shard1'')]
     else if resourceId = ''112'' then Inr [(''team'', ''x'')]
     else if resourceId = ''113'' then Inr [(''owner'', ''shard2'')]
     else Inl (ErrorsNew ''TargetNotFoundException''))"

definition example_client :: aws_client where
  "example_client =
    \<lparr>aws_ListParents = example_parents,
     aws_MoveAccount = (\<lambda>i. None),
     aws_ListTagsForResource = example_tags\<rparr>"

definition example_account :: "string \<Rightarrow> Account" where
  "example_account awsId = \<lparr>AwsAccountID = awsId, IsBYOC = False, IsOwnedByAccountPool = False\<rparr>"

text \<open>
  A configuration that names the pool OU and enables the relocation gate, and says nothing
  about the tagging gate; and a reconciler over the example organization, whose request
  \<open>byoc\<close> resolves to a bring-your-own-cloud account, whose request \<open>pooled\<close> resolves
  to an account owned by the account pool, and whose every other request resolves to the
  account of that identifier.
\<close>

definition example_config :: "string \<rightharpoonup> string" where
  "example_config =
    [''root'' \<mapsto> ''ou-pool'', ''shard-name'' \<mapsto> ''shard1'',
     ''feature.validation_move_account'' \<mapsto> ''true'']"

definition example_reconciler :: ValidateAccount where
  "example_reconciler =
    \<lparr>Client_Get = (\<lambda>request.
        if request = ''byoc'' then
          Inr \<lparr>AwsAccountID = ''999'', IsBYOC = True, IsOwnedByAccountPool = False\<rparr>
        else if request = ''pooled'' then
          Inr \<lparr>AwsAccountID = ''998'', IsBYOC = False, IsOwnedByAccountPool = True\<rparr>
        else Inr (example_account request)),
     GetOperatorConfigMap = Inr example_config,
     GetClient = (Some example_client, None),
     shardName = ''shard1''\<rparr>"

section \<open>The ancestry walk, step by step\<close>

lemma single_list: "\<not> length xs = 0 \<Longrightarrow> \<not> 1 < length xs \<Longrightarrow> xs = [xs ! 0]"
  by (cases xs) auto

lemma PTP_nil_client:
  "ParentsTillPredicate awsId None p parents calls = Some (Panic NilDereference, calls)"
  by (subst ParentsTillPredicate.simps) simp

lemma PTP_query_error:
  "aws_ListParents c awsId = Inl err \<Longrightarrow>
   ParentsTillPredicate awsId (Some c) p parents calls =
     Some (Return (Some err, parents), calls @ [ListParentsCall awsId])"
  by (subst ParentsTillPredicate.simps) simp

lemma PTP_zero:
  "aws_ListParents c awsId = Inr [] \<Longrightarrow>
   ParentsTillPredicate awsId (Some c) p parents calls =
     Some (Return (None, parents), calls @ [ListParentsCall awsId])"
  by (subst ParentsTillPredicate.simps) simp

lemma PTP_many:
  "aws_ListParents c awsId = Inr ps \<Longrightarrow> 1 < length ps \<Longrightarrow>
   ParentsTillPredicate awsId (Some c) p parents calls =
     Some (Return (Some (ErrorsNew (''More than 1 parents found for Id '' @ awsId)), parents),
           calls @ [ListParentsCall awsId])"
  by (subst ParentsTillPredicate.simps) auto

lemma PTP_stop:
  "aws_ListParents c awsId = Inr [q] \<Longrightarrow> p q \<Longrightarrow>
   ParentsTillPredicate awsId (Some c) p parents calls =
     Some (Return (None, parents @ [q]), calls @ [ListParentsCall awsId])"
  by (subst ParentsTillPredicate.simps) simp

lemma PTP_step:
  "aws_ListParents c awsId = Inr [q] \<Longrightarrow> \<not> p q \<Longrightarrow>
   ParentsTillPredicate awsId (Some c) p parents calls =
     ParentsTillPredicate q (Some c) p (parents @ [q]) (calls @ [ListParentsCall awsId])"
  by (subst ParentsTillPredicate.simps) simp

text \<open>
  A walk that climbs through parents the predicate rejects is the walk from the last of
  them, with the parents appended to the path and one query issued per node left behind.
\<close>

lemma PTP_hops:
  "hops c p n ms \<Longrightarrow>
   ParentsTillPredicate n (Some c) p parents calls =
     ParentsTillPredicate (last (n # ms)) (Some c) p (parents @ ms)
       (calls @ map ListParentsCall (butlast (n # ms)))"
proof (induction ms arbitrary: n parents calls)
  case Nil
  then show ?case by simp
next
  case (Cons m ms)
  then have "ParentsTillPredicate n (Some c) p parents calls =
             ParentsTillPredicate m (Some c) p (parents @ [m]) (calls @ [ListParentsCall n])"
    by (simp add: PTP_step)
  also have "\<dots> = ParentsTillPredicate (last (m # ms)) (Some c) p ((parents @ [m]) @ ms)
       ((calls @ [ListParentsCall n]) @ map ListParentsCall (butlast (m # ms)))"
    using Cons by simp
  finally show ?case by simp
qed

text \<open>
  The two directions between the reference recursion and the code: every path the
  reference recursion yields is returned by the code with no error, and every path the
  code returns with no error is one the reference recursion yields. The second direction
  is by induction over the recursion of the partial function.
\<close>

lemma walk_ref_sound:
  "walkAncestors c p n path path' \<Longrightarrow>
   \<exists>calls'. ParentsTillPredicate n (Some c) p path calls = Some (Return (None, path'), calls')"
proof (induction arbitrary: calls rule: walkAncestors.induct)
  case (zero_parents nodeId path)
  then show ?case by (simp add: PTP_zero)
next
  case (one_parent_stop nodeId q path)
  then show ?case by (simp add: PTP_stop)
next
  case (one_parent_recurse nodeId q path path')
  then show ?case by (simp add: PTP_step)
qed

lemma walk_ref_complete:
  assumes "ParentsTillPredicate n client p path calls = Some y"
  shows "\<forall>c path'. client = Some c \<longrightarrow> fst y = Return (None, path') \<longrightarrow>
           walkAncestors c p n path path'"
proof (rule ParentsTillPredicate.raw_induct
    [where P = "\<lambda>n client p path calls y. \<forall>c path'. client = Some c \<longrightarrow>
                  fst y = Return (None, path') \<longrightarrow> walkAncestors c p n path path'",
      OF _ assms])
  fix PTP awsId client p parents calls y
  assume IH: "\<And>n client p path calls y. PTP n client p path calls = Some y \<Longrightarrow>
            \<forall>c path'. client = Some c \<longrightarrow> fst y = Return (None, path') \<longrightarrow>
              walkAncestors c p n path path'"
    and eq: "(case client of
       None \<Rightarrow> Some (Panic NilDereference, calls)
     | Some c \<Rightarrow>
        (case aws_ListParents c awsId of
           Inl err \<Rightarrow> Some (Return (Some err, parents), calls @ [ListParentsCall awsId])
         | Inr Parents \<Rightarrow>
            if length Parents = 0 then
              Some (Return (None, parents), calls @ [ListParentsCall awsId])
            else if length Parents > 1 then
              Some (Return (Some (ErrorsNew (''More than 1 parents found for Id '' @ awsId)), parents),
                    calls @ [ListParentsCall awsId])
            else
              (let id = Parents ! 0; parents' = parents @ [id] in
               if p id then Some (Return (None, parents'), calls @ [ListParentsCall awsId])
               else PTP id client p parents' (calls @ [ListParentsCall awsId])))) = Some y"
  show "\<forall>c path'. client = Some c \<longrightarrow> fst y = Return (None, path') \<longrightarrow>
          walkAncestors c p awsId parents path'"
  proof (intro allI impI)
    fix c path'
    assume cl: "client = Some c" and res: "fst y = Return (None, path')"
    show "walkAncestors c p awsId parents path'"
    proof (cases "aws_ListParents c awsId")
      case (Inl err)
      with eq cl res show ?thesis by auto
    next
      case (Inr ps)
      show ?thesis
      proof (cases "length ps = 0")
        case True
        with eq cl res Inr show ?thesis by (auto intro: walkAncestors.zero_parents)
      next
        case False
        show ?thesis
        proof (cases "1 < length ps")
          case True
          with eq cl res Inr False show ?thesis by auto
        next
          case nm: False
          have ps: "ps = [ps ! 0]" using False nm by (rule single_list)
          show ?thesis
          proof (cases "p (ps ! 0)")
            case True
            from eq cl res Inr False nm True have "path' = parents @ [ps ! 0]"
              by (auto simp: Let_def)
            with Inr ps True show ?thesis
              by (metis walkAncestors.one_parent_stop)
          next
            case np: False
            from eq cl Inr False nm np
            have "PTP (ps ! 0) client p (parents @ [ps ! 0]) (calls @ [ListParentsCall awsId]) = Some y"
              by (simp add: Let_def)
            from IH[OF this] cl res
            have "walkAncestors c p (ps ! 0) (parents @ [ps ! 0]) path'" by blast
            with Inr ps np show ?thesis
              by (metis walkAncestors.one_parent_recurse)
          qed
        qed
      qed
    qed
  qed
qed

section \<open>The calls a run issues\<close>

lemma PTP_calls:
  assumes "ParentsTillPredicate n client p path calls = Some y"
  shows "\<exists>ns. snd y = calls @ map ListParentsCall ns"
proof (rule ParentsTillPredicate.raw_induct
    [where P = "\<lambda>n client p path calls y. \<exists>ns. snd y = calls @ map ListParentsCall ns",
      OF _ assms])
  fix PTP awsId client p parents calls y
  assume IH: "\<And>n client p path calls y. PTP n client p path calls = Some y \<Longrightarrow>
            \<exists>ns. snd y = calls @ map ListParentsCall ns"
    and eq: "(case client of
       None \<Rightarrow> Some (Panic NilDereference, calls)
     | Some c \<Rightarrow>
        (case aws_ListParents c awsId of
           Inl err \<Rightarrow> Some (Return (Some err, parents), calls @ [ListParentsCall awsId])
         | Inr Parents \<Rightarrow>
            if length Parents = 0 then
              Some (Return (None, parents), calls @ [ListParentsCall awsId])
            else if length Parents > 1 then
              Some (Return (Some (ErrorsNew (''More than 1 parents found for Id '' @ awsId)), parents),
                    calls @ [ListParentsCall awsId])
            else
              (let id = Parents ! 0; parents' = parents @ [id] in
               if p id then Some (Return (None, parents'), calls @ [ListParentsCall awsId])
               else PTP id client p parents' (calls @ [ListParentsCall awsId])))) = Some y"
  show "\<exists>ns. snd y = calls @ map ListParentsCall ns"
  proof (cases client)
    case None
    with eq have "snd y = calls @ map ListParentsCall []" by auto
    then show ?thesis by blast
  next
    case (Some c)
    show ?thesis
    proof (cases "aws_ListParents c awsId")
      case (Inl err)
      with eq Some have "snd y = calls @ map ListParentsCall [awsId]" by auto
      then show ?thesis by blast
    next
      case (Inr ps)
      show ?thesis
      proof (cases "length ps = 0 \<or> 1 < length ps \<or> p (ps ! 0)")
        case True
        with eq Some Inr have "snd y = calls @ map ListParentsCall [awsId]"
          by (auto simp: Let_def split: if_splits)
        then show ?thesis by blast
      next
        case False
        with eq Some Inr
        have "PTP (ps ! 0) client p (parents @ [ps ! 0]) (calls @ [ListParentsCall awsId]) = Some y"
          by (simp add: Let_def)
        from IH[OF this] obtain ns
          where "snd y = (calls @ [ListParentsCall awsId]) @ map ListParentsCall ns"
          by blast
        then have "snd y = calls @ map ListParentsCall (awsId # ns)" by simp
        then show ?thesis by blast
      qed
    qed
  qed
qed

lemma IsAccountInPoolOU_calls:
  assumes "IsAccountInPoolOU account client isPoolOU calls = Some (res, calls')"
  shows "\<exists>ns. calls' = calls @ map ListParentsCall ns"
proof (cases "AwsAccountID account = []")
  case True
  with assms have "calls' = calls @ map ListParentsCall []"
    by (simp add: IsAccountInPoolOU_def)
  then show ?thesis by blast
next
  case False
  with assms obtain y where
    y: "ParentsTillPredicate (AwsAccountID account) client isPoolOU [] calls = Some y"
    and "snd y = calls'"
    by (auto simp: IsAccountInPoolOU_def split: option.splits outcome.splits if_splits)
  with PTP_calls[OF y] show ?thesis by simp
qed

lemma MoveAccount_calls:
  "\<exists>xs. snd (MoveAccount a client t enabled calls) = calls @ xs
        \<and> filter is_ListTagsForResourceCall xs = []
        \<and> length (filter is_MoveAccountCall xs) \<le> 1
        \<and> (\<not> enabled \<longrightarrow> filter is_MoveAccountCall xs = [])"
  by (auto simp: MoveAccount_def Let_def split: option.splits sum.splits)

lemma filter_map_ListParentsCall:
  "filter is_ListTagsForResourceCall (map ListParentsCall ns) = []"
  "filter is_MoveAccountCall (map ListParentsCall ns) = []"
  by (induction ns) simp_all

lemma ValidateAccountOU_calls:
  assumes "ValidateAccountOU g client account poolOU calls = Some (res, calls')"
  shows "filter is_ListTagsForResourceCall calls' = filter is_ListTagsForResourceCall calls"
proof (cases "IsBYOC account \<or> IsOwnedByAccountPool account")
  case True
  with assms show ?thesis by (auto simp: ValidateAccountOU_def split: if_splits)
next
  case False
  with assms obtain r1 c1 where
    m: "IsAccountInPoolOU account client (\<lambda>s. s = poolOU) calls = Some (r1, c1)"
    by (auto simp: ValidateAccountOU_def split: option.splits)
  from IsAccountInPoolOU_calls[OF m] obtain ns where c1: "c1 = calls @ map ListParentsCall ns" ..
  obtain xs where
    xs: "snd (MoveAccount (AwsAccountID account) client poolOU (accountMoveEnabled g) c1) = c1 @ xs"
      "filter is_ListTagsForResourceCall xs = []"
    using MoveAccount_calls by blast
  from assms False m have "calls' = c1 \<or> calls' = c1 @ xs"
    using xs(1)
    by (auto simp: ValidateAccountOU_def split: option.splits outcome.splits if_splits prod.splits)
  with c1 xs(2) show ?thesis
    by (auto simp: filter_map_ListParentsCall)
qed

section \<open>The example organization, evaluated\<close>

lemma example_parents_simps:
  "example_parents ''111'' = Inr [''ou-pool'']"
  "example_parents ''112'' = Inr [''ou-pool'']"
  "example_parents ''113'' = Inr [''ou-pool'']"
  "example_parents ''222'' = Inr [''r-root'']"
  "example_parents ''333'' = Inr [''ou-other'']"
  "example_parents ''444'' = Inr [''ou-twin'']"
  "example_parents ''555'' = Inl (ErrorsNew ''ChildNotFoundException'')"
  "example_parents ''666'' = Inr []"
  "example_parents ''ou-other'' = Inr [''r-root'']"
  "example_parents ''ou-twin'' = Inr [''ou-a'', ''ou-b'']"
  "example_parents ''r-root'' = Inr []"
  by (simp_all add: example_parents_def)

lemma example_client_simps:
  "aws_ListParents example_client = example_parents"
  "aws_MoveAccount example_client i = None"
  "aws_ListTagsForResource example_client = example_tags"
  by (simp_all add: example_client_def)

lemma example_account_simps:
  "AwsAccountID (example_account awsId) = awsId"
  "IsBYOC (example_account awsId) = False"
  "IsOwnedByAccountPool (example_account awsId) = False"
  by (simp_all add: example_account_def)

lemma example_tags_simps:
  "example_tags ''111'' = Inr [(''team'', ''x''), (''owner'', ''shard1'')]"
  "example_tags ''112'' = Inr [(''team'', ''x'')]"
  "example_tags ''113'' = Inr [(''owner'', ''shard2'')]"
  by (simp_all add: example_tags_def)

lemma example_config_simps:
  "Data example_config ''root'' = ''ou-pool''"
  "ParseBool (Data example_config ''feature.validation_move_account'') = Inr True"
  "ParseBool (Data example_config ''feature.validation_tag_account'') =
     Inl (SyntaxError ''ParseBool'' [])"
  by (simp_all add: example_config_def Data_def ParseBool_def)

lemma example_reconciler_simps:
  "Client_Get example_reconciler ''byoc'' =
     Inr \<lparr>AwsAccountID = ''999'', IsBYOC = True, IsOwnedByAccountPool = False\<rparr>"
  "Client_Get example_reconciler ''pooled'' =
     Inr \<lparr>AwsAccountID = ''998'', IsBYOC = False, IsOwnedByAccountPool = True\<rparr>"
  "Client_Get example_reconciler ''111'' = Inr (example_account ''111'')"
  "Client_Get example_reconciler ''112'' = Inr (example_account ''112'')"
  "Client_Get example_reconciler ''113'' = Inr (example_account ''113'')"
  "Client_Get example_reconciler ''555'' = Inr (example_account ''555'')"
  "GetOperatorConfigMap example_reconciler = Inr example_config"
  "GetClient example_reconciler = (Some example_client, None)"
  "shardName example_reconciler = ''shard1''"
  by (simp_all add: example_reconciler_def)

lemma example_walk_111:
  "ParentsTillPredicate ''111'' (Some example_client) (\<lambda>s. s = ''ou-pool'') [] [] =
     Some (Return (None, [''ou-pool'']), [ListParentsCall ''111''])"
  by (simp add: PTP_stop example_client_simps example_parents_simps)

lemma example_walk_112:
  "ParentsTillPredicate ''112'' (Some example_client) (\<lambda>s. s = ''ou-pool'') [] [] =
     Some (Return (None, [''ou-pool'']), [ListParentsCall ''112''])"
  by (simp add: PTP_stop example_client_simps example_parents_simps)

lemma example_walk_113:
  "ParentsTillPredicate ''113'' (Some example_client) (\<lambda>s. s = ''ou-pool'') [] [] =
     Some (Return (None, [''ou-pool'']), [ListParentsCall ''113''])"
  by (simp add: PTP_stop example_client_simps example_parents_simps)

lemma example_walk_333:
  "ParentsTillPredicate ''333'' (Some example_client) (\<lambda>s. s = ''ou-pool'') [] [] =
     Some (Return (None, [''ou-other'', ''r-root'']),
           [ListParentsCall ''333'', ListParentsCall ''ou-other'', ListParentsCall ''r-root''])"
  by (simp add: PTP_step PTP_zero example_client_simps example_parents_simps)

lemma example_walk_444:
  "ParentsTillPredicate ''444'' (Some example_client) (\<lambda>s. s = ''ou-pool'') [] [] =
     Some (Return (Some (ErrorsNew ''More than 1 parents found for Id ou-twin''), [''ou-twin'']),
           [ListParentsCall ''444'', ListParentsCall ''ou-twin''])"
  by (simp add: PTP_step PTP_many example_client_simps example_parents_simps)

lemma example_walk_555:
  "ParentsTillPredicate ''555'' (Some example_client) (\<lambda>s. s = ''ou-pool'') [] [] =
     Some (Return (Some (ErrorsNew ''ChildNotFoundException''), []), [ListParentsCall ''555''])"
  by (simp add: PTP_query_error example_client_simps example_parents_simps)

lemma example_gates:
  "fst (Reconcile example_reconciler request initial_gates calls) =
     \<lparr>accountMoveEnabled = True, accountTagEnabled = False\<rparr>"
  by (simp add: Reconcile_def example_reconciler_def example_config_simps Let_def
      initial_gates_def)

lemma example_OU_byoc:
  "ValidateAccountOU g awsClient
     \<lparr>AwsAccountID = ''999'', IsBYOC = True, IsOwnedByAccountPool = False\<rparr> poolOU calls =
   Some (Return (Some (AccountValidationError InvalidAccount
                         (ErrorsNew ''Account is a CCS account''))), calls)"
  by (simp add: ValidateAccountOU_def)

lemma example_OU_555:
  "ValidateAccountOU \<lparr>accountMoveEnabled = True, accountTagEnabled = False\<rparr>
     (Some example_client) (example_account ''555'') ''ou-pool'' [] =
   Some (Return (Some (AccountValidationError AccountMoveFailed
                         (ErrorsNew ''ChildNotFoundException''))),
         [ListParentsCall ''555'', ListParentsCall ''555''])"
  by (simp add: ValidateAccountOU_def IsAccountInPoolOU_def MoveAccount_def example_account_def
      example_walk_555 example_client_simps example_parents_simps)

lemma example_OU_in_pool:
  "ValidateAccountOU \<lparr>accountMoveEnabled = True, accountTagEnabled = False\<rparr>
     (Some example_client) (example_account ''111'') ''ou-pool'' [] =
   Some (Return None, [ListParentsCall ''111''])"
  "ValidateAccountOU \<lparr>accountMoveEnabled = True, accountTagEnabled = False\<rparr>
     (Some example_client) (example_account ''112'') ''ou-pool'' [] =
   Some (Return None, [ListParentsCall ''112''])"
  "ValidateAccountOU \<lparr>accountMoveEnabled = True, accountTagEnabled = False\<rparr>
     (Some example_client) (example_account ''113'') ''ou-pool'' [] =
   Some (Return None, [ListParentsCall ''113''])"
  by (simp_all add: ValidateAccountOU_def IsAccountInPoolOU_def example_account_def
      example_walk_111 example_walk_112 example_walk_113)

lemma example_tag_check:
  "ValidateAccountTags (Some example_client) ''111'' ''shard1'' False calls =
     (Return None, calls @ [ListTagsForResourceCall ''111''])"
  "ValidateAccountTags (Some example_client) ''112'' ''shard1'' False calls =
     (Return (Some (AccountValidationError MissingTag
                      (ErrorsNew ''Account is not tagged with an owner''))),
      calls @ [ListTagsForResourceCall ''112''])"
  "ValidateAccountTags (Some example_client) ''113'' ''shard1'' False calls =
     (Return (Some (AccountValidationError IncorrectOwnerTag
                      (ErrorsNew ''Account is not tagged with the correct owner''))),
      calls @ [ListTagsForResourceCall ''113''])"
  by (simp_all add: ValidateAccountTags_def example_client_simps example_tags_simps ownerKey_def)

section \<open>Properties of the pool membership check\<close>

text \<open>
  Where the membership check does return false: the pool OU is met after two hops or more,
  or the walk ends at a node with no parent after no hop at all or after two hops or more.
\<close>

lemma IsAccountInPoolOU_far:
  assumes id: "AwsAccountID account \<noteq> []"
    and h: "hops c isPoolOU (AwsAccountID account) ms"
    and far: "(ms \<noteq> [] \<and> aws_ListParents c (last (AwsAccountID account # ms)) = Inr [q] \<and> isPoolOU q)
            \<or> (length ms \<noteq> 1 \<and> aws_ListParents c (last (AwsAccountID account # ms)) = Inr [])"
  shows "\<exists>calls'. IsAccountInPoolOU account (Some c) isPoolOU calls = Some (Return False, calls')"
  using far
proof (elim disjE conjE)
  assume ms: "ms \<noteq> []" and q: "aws_ListParents c (last (AwsAccountID account # ms)) = Inr [q]"
    and p: "isPoolOU q"
  have "ParentsTillPredicate (AwsAccountID account) (Some c) isPoolOU [] calls =
        Some (Return (None, ms @ [q]),
              (calls @ map ListParentsCall (butlast (AwsAccountID account # ms))) @
              [ListParentsCall (last (AwsAccountID account # ms))])"
    by (simp only: PTP_hops[OF h] PTP_stop[where p = isPoolOU, OF q p] append_Nil)
  moreover have "length (ms @ [q]) \<noteq> 1" using ms by simp
  ultimately show ?thesis
    using id by (simp add: IsAccountInPoolOU_def del: butlast.simps last.simps)
next
  assume l: "length ms \<noteq> 1"
    and z: "aws_ListParents c (last (AwsAccountID account # ms)) = Inr []"
  have "ParentsTillPredicate (AwsAccountID account) (Some c) isPoolOU [] calls =
        Some (Return (None, ms),
              (calls @ map ListParentsCall (butlast (AwsAccountID account # ms))) @
              [ListParentsCall (last (AwsAccountID account # ms))])"
    by (simp only: PTP_hops[OF h] PTP_zero[OF z] append_Nil)
  then show ?thesis
    using id l by (simp add: IsAccountInPoolOU_def del: butlast.simps last.simps)
qed

text \<open>
  C1. The spec says: for every account that is more than one level away from the pool OU,
  or that lies in a subtree disjoint from the pool OU, \<^verbatim>\<open>IsAccountInPoolOU\<close> returns
  false. The code does not do so for an account whose only ancestor is a root other than
  the pool OU. In the example organization the account 222 sits directly under \<open>r-root\<close>, outside the
  subtree of the pool OU \<open>ou-pool\<close>: the walk appends \<open>r-root\<close>, finds no parent of
  \<open>r-root\<close> and returns the path of length one with no error, and the membership check,
  which looks only at the length of the path, returns true.
\<close>

theorem IsAccountInPoolOU_under_other_root:
  "IsAccountInPoolOU (example_account ''222'') (Some example_client) (\<lambda>s. s = ''ou-pool'') [] =
     Some (Return True, [ListParentsCall ''222'', ListParentsCall ''r-root''])"
proof -
  have 1: "aws_ListParents example_client ''222'' = Inr [''r-root'']"
    by (simp add: example_client_simps example_parents_simps)
  have 2: "aws_ListParents example_client ''r-root'' = Inr []"
    by (simp add: example_client_simps example_parents_simps)
  have "ParentsTillPredicate ''222'' (Some example_client) (\<lambda>s. s = ''ou-pool'') [] [] =
        Some (Return (None, [''r-root'']), [ListParentsCall ''222'', ListParentsCall ''r-root''])"
    by (simp add: PTP_step[OF 1] PTP_zero[OF 2])
  then show ?thesis
    by (simp add: IsAccountInPoolOU_def example_account_def)
qed

text \<open>
  C2. \<^verbatim>\<open>IsAccountInPoolOU\<close> returns false, with no call issued, when the account's
  identifier is empty. Otherwise it returns false when the ancestry walk returns an error,
  and when the walk returns a path with no error it returns true if and only if that path
  has length exactly 1. An error of the walk is never passed on: the answer is a boolean.
\<close>

theorem IsAccountInPoolOU_cases:
  "(AwsAccountID account = '''' \<longrightarrow>
      IsAccountInPoolOU account client isPoolOU calls = Some (Return False, calls))
   \<and> (AwsAccountID account \<noteq> '''' \<and>
        ParentsTillPredicate (AwsAccountID account) client isPoolOU [] calls =
          Some (Return (Some e, path), calls') \<longrightarrow>
      IsAccountInPoolOU account client isPoolOU calls = Some (Return False, calls'))
   \<and> (AwsAccountID account \<noteq> '''' \<and>
        ParentsTillPredicate (AwsAccountID account) client isPoolOU [] calls =
          Some (Return (None, path), calls') \<longrightarrow>
      IsAccountInPoolOU account client isPoolOU calls = Some (Return (length path = 1), calls'))"
  by (simp add: IsAccountInPoolOU_def)

text \<open>
  The cases of C2 in the example organization: the empty identifier; the account
  444, whose walk fails on a node with two parents; the account 111, whose path has length
  one; and the account 333, whose path has length two.
\<close>

theorem IsAccountInPoolOU_cases_witness:
  "IsAccountInPoolOU (example_account '''') (Some example_client) (\<lambda>s. s = ''ou-pool'') [] =
     Some (Return False, [])
   \<and> IsAccountInPoolOU (example_account ''444'') (Some example_client) (\<lambda>s. s = ''ou-pool'') [] =
     Some (Return False, [ListParentsCall ''444'', ListParentsCall ''ou-twin''])
   \<and> IsAccountInPoolOU (example_account ''111'') (Some example_client) (\<lambda>s. s = ''ou-pool'') [] =
     Some (Return True, [ListParentsCall ''111''])
   \<and> IsAccountInPoolOU (example_account ''333'') (Some example_client) (\<lambda>s. s = ''ou-pool'') [] =
     Some (Return False,
           [ListParentsCall ''333'', ListParentsCall ''ou-other'', ListParentsCall ''r-root''])"
  using
    IsAccountInPoolOU_cases [of "example_account ''''" "Some example_client" "\<lambda>s. s = ''ou-pool''" "[]"]
    IsAccountInPoolOU_cases [of "example_account ''444''" "Some example_client"
      "\<lambda>s. s = ''ou-pool''" "[]" "ErrorsNew ''More than 1 parents found for Id ou-twin''"
      "[''ou-twin'']" "[ListParentsCall ''444'', ListParentsCall ''ou-twin'']"]
    IsAccountInPoolOU_cases [of "example_account ''111''" "Some example_client"
      "\<lambda>s. s = ''ou-pool''" "[]" _ "[''ou-pool'']" "[ListParentsCall ''111'']"]
    IsAccountInPoolOU_cases [of "example_account ''333''" "Some example_client"
      "\<lambda>s. s = ''ou-pool''" "[]" _ "[''ou-other'', ''r-root'']"
      "[ListParentsCall ''333'', ListParentsCall ''ou-other'', ListParentsCall ''r-root'']"]
  by (simp add: example_account_def example_walk_111 example_walk_333 example_walk_444)

section \<open>Properties of the ancestry walker\<close>

text \<open>
  C3. For every tree service, \<^verbatim>\<open>ParentsTillPredicate\<close> agrees with the reference
  recursion \<open>walkAncestors\<close>: a query answered with zero parents returns the accumulated
  path as it is, a query answered with exactly one parent appends it and returns when the
  predicate holds for it, and otherwise the walk goes on from that parent. The code returns
  the path \<open>path'\<close> with no error exactly when the reference recursion yields \<open>path'\<close>.
\<close>

theorem ParentsTillPredicate_walkAncestors:
  "walkAncestors c p n path path' \<longleftrightarrow>
     (\<exists>calls'. ParentsTillPredicate n (Some c) p path calls = Some (Return (None, path'), calls'))"
proof
  assume "walkAncestors c p n path path'"
  then show "\<exists>calls'. ParentsTillPredicate n (Some c) p path calls =
                Some (Return (None, path'), calls')"
    by (rule walk_ref_sound)
next
  assume "\<exists>calls'. ParentsTillPredicate n (Some c) p path calls =
            Some (Return (None, path'), calls')"
  then obtain calls' where
    "ParentsTillPredicate n (Some c) p path calls = Some (Return (None, path'), calls')" ..
  from walk_ref_complete[OF this] show "walkAncestors c p n path path'" by simp
qed

text \<open>
  C3 in the example organization: the walks from the accounts 333 (to the root, with no
  match) and 111 (one hop, to the pool OU), read off the code's results.
\<close>

theorem ParentsTillPredicate_walkAncestors_witness:
  "walkAncestors example_client (\<lambda>s. s = ''ou-pool'') ''333'' [] [''ou-other'', ''r-root'']
   \<and> walkAncestors example_client (\<lambda>s. s = ''ou-pool'') ''111'' [] [''ou-pool'']"
  using
    ParentsTillPredicate_walkAncestors [of example_client "\<lambda>s. s = ''ou-pool''" "''333''" "[]"
      "[''ou-other'', ''r-root'']" "[]"]
    ParentsTillPredicate_walkAncestors [of example_client "\<lambda>s. s = ''ou-pool''" "''111''" "[]"
      "[''ou-pool'']" "[]"]
  by (simp add: example_walk_111 example_walk_333)

text \<open>
  C4. If a query of the walk is answered with more than one parent, the walk fails there
  with an error that names the node, and goes no further: when the walk from \<open>n\<close> climbs
  through the parents \<open>ms\<close> and the query for the last node reports more than one parent,
  the result is the error \<open>More than 1 parents found for Id\<close> followed by that node, and
  the calls issued are the queries for \<open>n\<close> and for \<open>ms\<close>, the failing query last.
\<close>

theorem ParentsTillPredicate_more_than_one_parent:
  "hops c p n ms \<and> aws_ListParents c (last (n # ms)) = Inr ps \<and> 1 < length ps \<longrightarrow>
   ParentsTillPredicate n (Some c) p parents calls =
     Some (Return (Some (ErrorsNew (''More than 1 parents found for Id '' @ last (n # ms))),
                   parents @ ms),
           calls @ map ListParentsCall (n # ms))"
proof (intro impI, elim conjE)
  assume h: "hops c p n ms" and q: "aws_ListParents c (last (n # ms)) = Inr ps"
    and m: "1 < length ps"
  have "calls @ map ListParentsCall (n # ms) =
        (calls @ map ListParentsCall (butlast (n # ms))) @ [ListParentsCall (last (n # ms))]"
    by (metis append_assoc append_butlast_last_id list.simps(3) list.simps(8) list.simps(9) map_append)
  then show "ParentsTillPredicate n (Some c) p parents calls =
     Some (Return (Some (ErrorsNew (''More than 1 parents found for Id '' @ last (n # ms))),
                   parents @ ms),
           calls @ map ListParentsCall (n # ms))"
    by (simp only: PTP_hops[OF h] PTP_many[OF q m])
qed

text \<open>
  C4 in the example organization: the walk from the account 444 fails at \<open>ou-twin\<close>.
\<close>

theorem ParentsTillPredicate_more_than_one_parent_witness:
  "ParentsTillPredicate ''444'' (Some example_client) (\<lambda>s. s = ''ou-pool'') [] [] =
     Some (Return (Some (ErrorsNew ''More than 1 parents found for Id ou-twin''), [''ou-twin'']),
           [ListParentsCall ''444'', ListParentsCall ''ou-twin''])"
  using ParentsTillPredicate_more_than_one_parent
    [of example_client "\<lambda>s. s = ''ou-pool''" "''444''" "[''ou-twin'']" "[''ou-a'', ''ou-b'']" "[]" "[]"]
  by (simp add: example_client_simps example_parents_simps)

section \<open>Properties of the account mover\<close>

text \<open>
  C8. The spec says that with the relocation gate disabled the mover returns success
  (nil) on every invocation. It does not when the parent query fails: the error of the
  query is returned, whatever the gate. In the example organization the service fails for
  the identifier 555.
\<close>

theorem MoveAccount_disabled_lookup_error:
  "fst (MoveAccount ''555'' (Some example_client) ''ou-pool'' False []) =
     Return (Some (ErrorsNew ''ChildNotFoundException''))
   \<and> fst (MoveAccount ''555'' (Some example_client) ''ou-pool'' False []) \<noteq> Return None"
  by (simp add: MoveAccount_def example_client_simps example_parents_simps)

text \<open>
  C8, amended. With the relocation gate disabled no reparent (\<^verbatim>\<open>MoveAccount\<close>) call is
  issued, whatever the client and its answers; the mover then returns success (nil) when
  the parent query succeeds with at least one parent, and returns the error of the parent
  query when that query fails. With the gate enabled at most one reparent call is issued
  per invocation.
\<close>

theorem MoveAccount_gate:
  "(\<exists>xs. snd (MoveAccount awsAccountId client targetOU False calls) = calls @ xs
         \<and> filter is_MoveAccountCall xs = [])
   \<and> (client = Some c \<and> aws_ListParents c awsAccountId = Inr (q # qs) \<longrightarrow>
        fst (MoveAccount awsAccountId client targetOU False calls) = Return None)
   \<and> (client = Some c \<and> aws_ListParents c awsAccountId = Inl e \<longrightarrow>
        fst (MoveAccount awsAccountId client targetOU False calls) = Return (Some e))
   \<and> (\<exists>xs. snd (MoveAccount awsAccountId client targetOU True calls) = calls @ xs
         \<and> length (filter is_MoveAccountCall xs) \<le> 1)"
proof -
  have 1: "\<exists>xs. snd (MoveAccount awsAccountId client targetOU False calls) = calls @ xs
         \<and> filter is_MoveAccountCall xs = []"
    using MoveAccount_calls[of awsAccountId client targetOU False calls] by blast
  have 2: "\<exists>xs. snd (MoveAccount awsAccountId client targetOU True calls) = calls @ xs
         \<and> length (filter is_MoveAccountCall xs) \<le> 1"
    using MoveAccount_calls[of awsAccountId client targetOU True calls] by blast
  have 3: "client = Some c \<and> aws_ListParents c awsAccountId = Inr (q # qs) \<longrightarrow>
        fst (MoveAccount awsAccountId client targetOU False calls) = Return None"
    by (simp add: MoveAccount_def)
  have 4: "client = Some c \<and> aws_ListParents c awsAccountId = Inl e \<longrightarrow>
        fst (MoveAccount awsAccountId client targetOU False calls) = Return (Some e)"
    by (simp add: MoveAccount_def)
  from 1 2 3 4 show ?thesis by blast
qed

text \<open>
  C8 in the example organization: the dry run for the account 333, the failed lookup for
  555, and the single reparent call for 333 with the gate enabled.
\<close>

theorem MoveAccount_gate_witness:
  "MoveAccount ''333'' (Some example_client) ''ou-pool'' False [] =
     (Return None, [ListParentsCall ''333''])
   \<and> MoveAccount ''555'' (Some example_client) ''ou-pool'' False [] =
     (Return (Some (ErrorsNew ''ChildNotFoundException'')), [ListParentsCall ''555''])
   \<and> MoveAccount ''333'' (Some example_client) ''ou-pool'' True [] =
     (Return None,
      [ListParentsCall ''333'',
       MoveAccountCall \<lparr>AccountId = ''333'', DestinationParentId = ''ou-pool'',
                        SourceParentId = ''ou-other''\<rparr>])"
  using
    MoveAccount_gate [of "''333''" "Some example_client" "''ou-pool''" "[]" example_client
      "''ou-other''" "[]"]
    MoveAccount_gate [of "''555''" "Some example_client" "''ou-pool''" "[]" example_client
      _ _ "ErrorsNew ''ChildNotFoundException''"]
  by (simp add: MoveAccount_def example_client_simps example_parents_simps)

text \<open>
  C10. \<^verbatim>\<open>MoveAccount\<close> reads the first element of the parent list without checking that
  the list is non-empty: when the parent query succeeds with zero parents the operation
  panics with an index out of range, after the one query and before the gate is looked at,
  so in dry-run mode as well as with the gate enabled.
\<close>

theorem MoveAccount_no_parents_panics:
  "aws_ListParents c awsAccountId = Inr [] \<longrightarrow>
   MoveAccount awsAccountId (Some c) targetOU moveAccount calls =
     (Panic (IndexOutOfRange 0 0), calls @ [ListParentsCall awsAccountId])"
  by (simp add: MoveAccount_def)

text \<open>
  C10 in the example organization: the service reports no parent for the account 666.
\<close>

theorem MoveAccount_no_parents_panics_witness:
  "MoveAccount ''666'' (Some example_client) ''ou-pool'' False [] =
     (Panic (IndexOutOfRange 0 0), [ListParentsCall ''666''])
   \<and> MoveAccount ''666'' (Some example_client) ''ou-pool'' True [] =
     (Panic (IndexOutOfRange 0 0), [ListParentsCall ''666''])"
  using
    MoveAccount_no_parents_panics [of example_client "''666''" "''ou-pool''" False "[]"]
    MoveAccount_no_parents_panics [of example_client "''666''" "''ou-pool''" True "[]"]
  by (simp add: example_client_simps example_parents_simps)

section \<open>Properties of the tag validator\<close>

text \<open>
  The loop returns at the first tag whose key is the ownership key, so its result is a
  function of the value that the fetched list, read as a mapping from key to value, gives
  that key.
\<close>

lemma ValidateAccountTags_loop_map_of:
  "ValidateAccountTags_loop expectedOwner tags =
    (case map_of tags ''owner'' of
       None \<Rightarrow>
         Some (AccountValidationError MissingTag (ErrorsNew ''Account is not tagged with an owner''))
     | Some v \<Rightarrow>
         if expectedOwner \<noteq> v then
           Some (AccountValidationError IncorrectOwnerTag
                   (ErrorsNew ''Account is not tagged with the correct owner''))
         else None)"
  by (induction tags) (auto simp: ownerKey_def)

text \<open>
  C7. For every fetched tag set, read as the mapping from key to value that
  \<open>map_of\<close> gives, \<^verbatim>\<open>ValidateAccountTags\<close> returns nil exactly when the key \<open>owner\<close> is
  present and its value equals the expected owner; a value under \<open>owner\<close> that differs from
  the expected owner yields an error of kind \<open>IncorrectOwnerTag\<close>; and when no tag has the
  key \<open>owner\<close> the error is of kind \<open>MissingTag\<close>.
\<close>

theorem ValidateAccountTags_owner:
  "aws_ListTagsForResource c accountId = Inr tags \<longrightarrow>
     (fst (ValidateAccountTags (Some c) accountId expectedOwner tagEnabled calls) = Return None
        \<longleftrightarrow> map_of tags ''owner'' = Some expectedOwner)
   \<and> ((\<exists>v. map_of tags ''owner'' = Some v \<and> v \<noteq> expectedOwner) \<longrightarrow>
        (\<exists>e. fst (ValidateAccountTags (Some c) accountId expectedOwner tagEnabled calls) =
               Return (Some (AccountValidationError IncorrectOwnerTag e))))
   \<and> (''owner'' \<notin> set (map fst tags) \<longrightarrow>
        (\<exists>e. fst (ValidateAccountTags (Some c) accountId expectedOwner tagEnabled calls) =
               Return (Some (AccountValidationError MissingTag e))))"
proof (intro impI)
  assume t: "aws_ListTagsForResource c accountId = Inr tags"
  have r: "fst (ValidateAccountTags (Some c) accountId expectedOwner tagEnabled calls) =
           Return (ValidateAccountTags_loop expectedOwner tags)"
    by (simp add: ValidateAccountTags_def t)
  have n: "''owner'' \<notin> set (map fst tags) \<longrightarrow> map_of tags ''owner'' = None"
    by (simp add: map_of_eq_None_iff)
  show "(fst (ValidateAccountTags (Some c) accountId expectedOwner tagEnabled calls) = Return None
        \<longleftrightarrow> map_of tags ''owner'' = Some expectedOwner)
   \<and> ((\<exists>v. map_of tags ''owner'' = Some v \<and> v \<noteq> expectedOwner) \<longrightarrow>
        (\<exists>e. fst (ValidateAccountTags (Some c) accountId expectedOwner tagEnabled calls) =
               Return (Some (AccountValidationError IncorrectOwnerTag e))))
   \<and> (''owner'' \<notin> set (map fst tags) \<longrightarrow>
        (\<exists>e. fst (ValidateAccountTags (Some c) accountId expectedOwner tagEnabled calls) =
               Return (Some (AccountValidationError MissingTag e))))"
    using n unfolding r ValidateAccountTags_loop_map_of
    by (auto split: option.splits)
qed

text \<open>
  C7 in the example organization, for the expected owner \<open>shard1\<close>: the account 111 is
  tagged with it, the account 113 with another owner, and the account 112 has no owner tag.
\<close>

theorem ValidateAccountTags_owner_witness:
  "fst (ValidateAccountTags (Some example_client) ''111'' ''shard1'' False []) = Return None
   \<and> (\<exists>e. fst (ValidateAccountTags (Some example_client) ''113'' ''shard1'' False []) =
            Return (Some (AccountValidationError IncorrectOwnerTag e)))
   \<and> (\<exists>e. fst (ValidateAccountTags (Some example_client) ''112'' ''shard1'' False []) =
            Return (Some (AccountValidationError MissingTag e)))"
  using
    ValidateAccountTags_owner [of example_client "''111''"
      "[(''team'', ''x''), (''owner'', ''shard1'')]" "''shard1''" False "[]"]
    ValidateAccountTags_owner [of example_client "''113''" "[(''owner'', ''shard2'')]"
      "''shard1''" False "[]"]
    ValidateAccountTags_owner [of example_client "''112''" "[(''team'', ''x'')]"
      "''shard1''" False "[]"]
  by (simp add: example_client_simps example_tags_simps)

section \<open>Properties of the orchestrator and of the reconciliation\<close>

text \<open>
  C5. For every account that is bring-your-own-cloud or owned by the account pool,
  \<^verbatim>\<open>ValidateAccountOU\<close> classifies \<open>InvalidAccount\<close> and issues no call (no membership
  check, no move), and a reconciliation that has resolved the account and the configuration
  returns no-requeue with no call issued at all, so without a tag check either.
\<close>

theorem ValidateAccountOU_out_of_scope:
  "IsBYOC account \<or> IsOwnedByAccountPool account \<longrightarrow>
     (\<exists>e. ValidateAccountOU g awsClient account poolOU calls =
            Some (Return (Some (AccountValidationError InvalidAccount e)), calls))
     \<and> (Client_Get r request = Inr account \<and> GetOperatorConfigMap r = Inr cm \<longrightarrow>
          snd (Reconcile r request g calls) = Some (Return DoNotRequeue, calls))"
  by (auto simp: ValidateAccountOU_def Reconcile_def Let_def)

text \<open>
  C5 for the bring-your-own-cloud account and for the pool-owned account of the example
  reconciler.
\<close>

theorem ValidateAccountOU_out_of_scope_witness:
  "(\<exists>e. ValidateAccountOU initial_gates (Some example_client)
           \<lparr>AwsAccountID = ''999'', IsBYOC = True, IsOwnedByAccountPool = False\<rparr> ''ou-pool'' [] =
          Some (Return (Some (AccountValidationError InvalidAccount e)), []))
   \<and> snd (Reconcile example_reconciler ''byoc'' initial_gates []) = Some (Return DoNotRequeue, [])
   \<and> (\<exists>e. ValidateAccountOU initial_gates (Some example_client)
           \<lparr>AwsAccountID = ''998'', IsBYOC = False, IsOwnedByAccountPool = True\<rparr> ''ou-pool'' [] =
          Some (Return (Some (AccountValidationError InvalidAccount e)), []))
   \<and> snd (Reconcile example_reconciler ''pooled'' initial_gates []) = Some (Return DoNotRequeue, [])"
  using
    ValidateAccountOU_out_of_scope
      [of "\<lparr>AwsAccountID = ''999'', IsBYOC = True, IsOwnedByAccountPool = False\<rparr>"
        initial_gates "Some example_client" "''ou-pool''" "[]" example_reconciler "''byoc''"
        example_config]
    ValidateAccountOU_out_of_scope
      [of "\<lparr>AwsAccountID = ''998'', IsBYOC = False, IsOwnedByAccountPool = True\<rparr>"
        initial_gates "Some example_client" "''ou-pool''" "[]" example_reconciler "''pooled''"
        example_config]
  by (simp add: example_reconciler_simps)

text \<open>
  C6. Every classification maps to its requeue decision. In a reconciliation that has
  resolved the account and the configuration, with \<open>g'\<close> the gates as it leaves them:
  when \<^verbatim>\<open>ValidateAccountOU\<close> classifies \<open>InvalidAccount\<close> the answer is no-requeue; when it
  classifies \<open>AccountMoveFailed\<close> the answer is requeue-after five minutes and the run ends
  with the calls of the OU validation, none of them a tag query; and when it returns nil
  and the tag validation classifies \<open>MissingTag\<close> or \<open>IncorrectOwnerTag\<close>, or returns nil
  as well, the answer is no-requeue.
\<close>

theorem Reconcile_requeue_decision:
  "Client_Get r request = Inr account \<and> GetOperatorConfigMap r = Inr cm \<and>
   g' = fst (Reconcile r request g calls) \<and>
   ValidateAccountOU g' (fst (GetClient r)) account (Data cm ''root'') calls =
     Some (Return err, calls') \<longrightarrow>
     (classification err = Some InvalidAccount \<longrightarrow>
        snd (Reconcile r request g calls) = Some (Return DoNotRequeue, calls'))
   \<and> (classification err = Some AccountMoveFailed \<longrightarrow>
        snd (Reconcile r request g calls) =
          Some (Return (RequeueAfter (5 * 60 * 1000000000)), calls')
        \<and> filter is_ListTagsForResourceCall calls' = filter is_ListTagsForResourceCall calls)
   \<and> (err = None \<and>
        ValidateAccountTags (fst (GetClient r)) (AwsAccountID account) (shardName r)
          (accountTagEnabled g') calls' = (Return err', calls'') \<and>
        (classification err' = Some MissingTag \<or> classification err' = Some IncorrectOwnerTag
         \<or> err' = None) \<longrightarrow>
        snd (Reconcile r request g calls) = Some (Return DoNotRequeue, calls''))"
proof (intro impI, elim conjE)
  assume a: "Client_Get r request = Inr account" and c: "GetOperatorConfigMap r = Inr cm"
    and g': "g' = fst (Reconcile r request g calls)"
    and v: "ValidateAccountOU g' (fst (GetClient r)) account (Data cm ''root'') calls =
              Some (Return err, calls')"
  have v': "ValidateAccountOU
      (case ParseBool (Data cm ''feature.validation_tag_account'') of
         Inl err \<Rightarrow>
           (case ParseBool (Data cm ''feature.validation_move_account'') of
              Inl err \<Rightarrow> g | Inr enabled \<Rightarrow> g\<lparr>accountMoveEnabled := enabled\<rparr>)
       | Inr enabled \<Rightarrow>
           (case ParseBool (Data cm ''feature.validation_move_account'') of
              Inl err \<Rightarrow> g | Inr enabled \<Rightarrow> g\<lparr>accountMoveEnabled := enabled\<rparr>)
           \<lparr>accountTagEnabled := enabled\<rparr>)
      (fst (GetClient r)) account (Data cm ''root'') calls = Some (Return err, calls')"
    using v unfolding g' by (simp add: Reconcile_def a c Let_def)
  have 1: "classification err = Some InvalidAccount \<longrightarrow>
        snd (Reconcile r request g calls) = Some (Return DoNotRequeue, calls')"
    by (simp add: Reconcile_def a c Let_def v')
  have 2: "classification err = Some AccountMoveFailed \<longrightarrow>
        snd (Reconcile r request g calls) =
          Some (Return (RequeueAfter (5 * 60 * 1000000000)), calls')"
    by (simp add: Reconcile_def a c Let_def v' moveWaitTime_def Minute_def)
  have 3: "filter is_ListTagsForResourceCall calls' = filter is_ListTagsForResourceCall calls"
    by (rule ValidateAccountOU_calls[OF v])
  have 4: "err = None \<and>
        ValidateAccountTags (fst (GetClient r)) (AwsAccountID account) (shardName r)
          (accountTagEnabled g') calls' = (Return err', calls'') \<and>
        (classification err' = Some MissingTag \<or> classification err' = Some IncorrectOwnerTag
         \<or> err' = None) \<longrightarrow>
        snd (Reconcile r request g calls) = Some (Return DoNotRequeue, calls'')"
    unfolding g' by (auto simp add: Reconcile_def a c Let_def v')
  from 1 2 3 4 show "(classification err = Some InvalidAccount \<longrightarrow>
        snd (Reconcile r request g calls) = Some (Return DoNotRequeue, calls'))
   \<and> (classification err = Some AccountMoveFailed \<longrightarrow>
        snd (Reconcile r request g calls) =
          Some (Return (RequeueAfter (5 * 60 * 1000000000)), calls')
        \<and> filter is_ListTagsForResourceCall calls' = filter is_ListTagsForResourceCall calls)
   \<and> (err = None \<and>
        ValidateAccountTags (fst (GetClient r)) (AwsAccountID account) (shardName r)
          (accountTagEnabled g') calls' = (Return err', calls'') \<and>
        (classification err' = Some MissingTag \<or> classification err' = Some IncorrectOwnerTag
         \<or> err' = None) \<longrightarrow>
        snd (Reconcile r request g calls) = Some (Return DoNotRequeue, calls''))"
    by blast
qed

text \<open>
  C6 in the example organization: the bring-your-own-cloud account, the account 555 whose
  move fails, and the accounts 111, 112 and 113 in the pool OU with a correct, a missing
  and an incorrect owner tag.
\<close>

theorem Reconcile_requeue_decision_witness:
  "snd (Reconcile example_reconciler ''byoc'' initial_gates []) = Some (Return DoNotRequeue, [])
   \<and> snd (Reconcile example_reconciler ''555'' initial_gates []) =
       Some (Return (RequeueAfter (5 * 60 * 1000000000)),
             [ListParentsCall ''555'', ListParentsCall ''555''])
   \<and> snd (Reconcile example_reconciler ''111'' initial_gates []) =
       Some (Return DoNotRequeue, [ListParentsCall ''111'', ListTagsForResourceCall ''111''])
   \<and> snd (Reconcile example_reconciler ''112'' initial_gates []) =
       Some (Return DoNotRequeue, [ListParentsCall ''112'', ListTagsForResourceCall ''112''])
   \<and> snd (Reconcile example_reconciler ''113'' initial_gates []) =
       Some (Return DoNotRequeue, [ListParentsCall ''113'', ListTagsForResourceCall ''113''])"
  using
    Reconcile_requeue_decision [of example_reconciler "''byoc''"
      "\<lparr>AwsAccountID = ''999'', IsBYOC = True, IsOwnedByAccountPool = False\<rparr>" example_config
      "\<lparr>accountMoveEnabled = True, accountTagEnabled = False\<rparr>" initial_gates "[]"
      "Some (AccountValidationError InvalidAccount (ErrorsNew ''Account is a CCS account''))" "[]"]
    Reconcile_requeue_decision [of example_reconciler "''555''" "example_account ''555''"
      example_config "\<lparr>accountMoveEnabled = True, accountTagEnabled = False\<rparr>" initial_gates "[]"
      "Some (AccountValidationError AccountMoveFailed (ErrorsNew ''ChildNotFoundException''))"
      "[ListParentsCall ''555'', ListParentsCall ''555'']"]
    Reconcile_requeue_decision [of example_reconciler "''111''" "example_account ''111''"
      example_config "\<lparr>accountMoveEnabled = True, accountTagEnabled = False\<rparr>" initial_gates "[]"
      None "[ListParentsCall ''111'']" None
      "[ListParentsCall ''111'', ListTagsForResourceCall ''111'']"]
    Reconcile_requeue_decision [of example_reconciler "''112''" "example_account ''112''"
      example_config "\<lparr>accountMoveEnabled = True, accountTagEnabled = False\<rparr>" initial_gates "[]"
      None "[ListParentsCall ''112'']"
      "Some (AccountValidationError MissingTag (ErrorsNew ''Account is not tagged with an owner''))"
      "[ListParentsCall ''112'', ListTagsForResourceCall ''112'']"]
    Reconcile_requeue_decision [of example_reconciler "''113''" "example_account ''113''"
      example_config "\<lparr>accountMoveEnabled = True, accountTagEnabled = False\<rparr>" initial_gates "[]"
      None "[ListParentsCall ''113'']"
      "Some (AccountValidationError IncorrectOwnerTag
               (ErrorsNew ''Account is not tagged with the correct owner''))"
      "[ListParentsCall ''113'', ListTagsForResourceCall ''113'']"]
  by (simp add: example_reconciler_simps example_gates example_config_simps example_OU_byoc
      example_OU_555 example_OU_in_pool example_tag_check example_account_simps)

section \<open>Properties of the feature gates\<close>

lemma ParseBool_FormatBool: "ParseBool (FormatBool b) = Inr b"
  by (simp add: ParseBool_def FormatBool_def)

lemma ParseBool_absent: "ParseBool [] = Inl (SyntaxError ''ParseBool'' [])"
  by (simp add: ParseBool_def)

lemma Data_update:
  "Data (cm(k \<mapsto> v)) k' = (if k' = k then v else Data cm k')"
  by (simp add: Data_def)

lemma Data_absent: "cm k = None \<Longrightarrow> Data cm k = []"
  by (simp add: Data_def)

text \<open>
  C9. In a reconciliation that has resolved the account and the configuration, with \<open>g'\<close>
  the gates as it leaves them: when the value of a feature gate is absent or does not parse
  as a boolean the gate keeps its previous value and the run goes on, being the very run of
  a configuration that spells out the previous value; when the value parses, the gate is
  the parsed value. Both gates start disabled.
\<close>

theorem Reconcile_feature_gates:
  "Client_Get r request = Inr account \<and> GetOperatorConfigMap r = Inr cm \<and>
   g' = fst (Reconcile r request g calls) \<longrightarrow>
     (cm ''feature.validation_move_account'' = None
        \<or> (\<exists>e. ParseBool (Data cm ''feature.validation_move_account'') = Inl e) \<longrightarrow>
      accountMoveEnabled g' = accountMoveEnabled g
      \<and> Reconcile r request g calls =
          Reconcile (r\<lparr>GetOperatorConfigMap :=
                        Inr (cm(''feature.validation_move_account'' \<mapsto>
                                  FormatBool (accountMoveEnabled g)))\<rparr>) request g calls)
   \<and> (\<forall>b. ParseBool (Data cm ''feature.validation_move_account'') = Inr b \<longrightarrow>
          accountMoveEnabled g' = b)
   \<and> (cm ''feature.validation_tag_account'' = None
        \<or> (\<exists>e. ParseBool (Data cm ''feature.validation_tag_account'') = Inl e) \<longrightarrow>
      accountTagEnabled g' = accountTagEnabled g
      \<and> Reconcile r request g calls =
          Reconcile (r\<lparr>GetOperatorConfigMap :=
                        Inr (cm(''feature.validation_tag_account'' \<mapsto>
                                  FormatBool (accountTagEnabled g)))\<rparr>) request g calls)
   \<and> (\<forall>b. ParseBool (Data cm ''feature.validation_tag_account'') = Inr b \<longrightarrow>
          accountTagEnabled g' = b)
   \<and> \<not> accountMoveEnabled initial_gates \<and> \<not> accountTagEnabled initial_gates"
proof (intro impI, elim conjE)
  assume a: "Client_Get r request = Inr account" and c: "GetOperatorConfigMap r = Inr cm"
    and g': "g' = fst (Reconcile r request g calls)"
  have m_fail: "accountMoveEnabled g' = accountMoveEnabled g
      \<and> Reconcile r request g calls =
          Reconcile (r\<lparr>GetOperatorConfigMap :=
                        Inr (cm(''feature.validation_move_account'' \<mapsto>
                                  FormatBool (accountMoveEnabled g)))\<rparr>) request g calls"
    if "cm ''feature.validation_move_account'' = None
        \<or> (\<exists>e. ParseBool (Data cm ''feature.validation_move_account'') = Inl e)"
  proof -
    from that obtain e where e: "ParseBool (Data cm ''feature.validation_move_account'') = Inl e"
      by (auto simp: Data_absent ParseBool_absent)
    show ?thesis
      unfolding g'
      by (simp add: Reconcile_def a c e Let_def Data_update ParseBool_FormatBool
          split: sum.splits
          cong: option.case_cong outcome.case_cong prod.case_cong if_cong)
  qed
  have t_fail: "accountTagEnabled g' = accountTagEnabled g
      \<and> Reconcile r request g calls =
          Reconcile (r\<lparr>GetOperatorConfigMap :=
                        Inr (cm(''feature.validation_tag_account'' \<mapsto>
                                  FormatBool (accountTagEnabled g)))\<rparr>) request g calls"
    if "cm ''feature.validation_tag_account'' = None
        \<or> (\<exists>e. ParseBool (Data cm ''feature.validation_tag_account'') = Inl e)"
  proof -
    from that obtain e where e: "ParseBool (Data cm ''feature.validation_tag_account'') = Inl e"
      by (auto simp: Data_absent ParseBool_absent)
    show ?thesis
      unfolding g'
      by (cases "ParseBool (Data cm ''feature.validation_move_account'')")
        (simp_all add: Reconcile_def a c e Let_def Data_update ParseBool_FormatBool
          cong: option.case_cong outcome.case_cong prod.case_cong if_cong)
  qed
  have m_ok: "\<forall>b. ParseBool (Data cm ''feature.validation_move_account'') = Inr b \<longrightarrow>
          accountMoveEnabled g' = b"
    unfolding g' by (simp add: Reconcile_def a c Let_def split: sum.splits)
  have t_ok: "\<forall>b. ParseBool (Data cm ''feature.validation_tag_account'') = Inr b \<longrightarrow>
          accountTagEnabled g' = b"
    unfolding g' by (simp add: Reconcile_def a c Let_def split: sum.splits)
  have i: "\<not> accountMoveEnabled initial_gates \<and> \<not> accountTagEnabled initial_gates"
    by (simp add: initial_gates_def)
  from m_fail t_fail m_ok t_ok i
  show "(cm ''feature.validation_move_account'' = None
        \<or> (\<exists>e. ParseBool (Data cm ''feature.validation_move_account'') = Inl e) \<longrightarrow>
      accountMoveEnabled g' = accountMoveEnabled g
      \<and> Reconcile r request g calls =
          Reconcile (r\<lparr>GetOperatorConfigMap :=
                        Inr (cm(''feature.validation_move_account'' \<mapsto>
                                  FormatBool (accountMoveEnabled g)))\<rparr>) request g calls)
   \<and> (\<forall>b. ParseBool (Data cm ''feature.validation_move_account'') = Inr b \<longrightarrow>
          accountMoveEnabled g' = b)
   \<and> (cm ''feature.validation_tag_account'' = None
        \<or> (\<exists>e. ParseBool (Data cm ''feature.validation_tag_account'') = Inl e) \<longrightarrow>
      accountTagEnabled g' = accountTagEnabled g
      \<and> Reconcile r request g calls =
          Reconcile (r\<lparr>GetOperatorConfigMap :=
                        Inr (cm(''feature.validation_tag_account'' \<mapsto>
                                  FormatBool (accountTagEnabled g)))\<rparr>) request g calls)
   \<and> (\<forall>b. ParseBool (Data cm ''feature.validation_tag_account'') = Inr b \<longrightarrow>
          accountTagEnabled g' = b)
   \<and> \<not> accountMoveEnabled initial_gates \<and> \<not> accountTagEnabled initial_gates"
    by blast
qed

text \<open>
  C9 for the example reconciler: the relocation gate is set from \<open>true\<close> and the tagging
  gate, absent, stays disabled; and with the relocation value \<open>yes\<close>, which does not
  parse, and the tagging value \<open>1\<close>, an enabled relocation gate stays enabled and the
  tagging gate is set.
\<close>

theorem Reconcile_feature_gates_witness:
  "accountMoveEnabled (fst (Reconcile example_reconciler ''111'' initial_gates [])) = True
   \<and> accountTagEnabled (fst (Reconcile example_reconciler ''111'' initial_gates [])) = False
   \<and> Reconcile example_reconciler ''111'' initial_gates [] =
       Reconcile (example_reconciler\<lparr>GetOperatorConfigMap :=
                    Inr (example_config(''feature.validation_tag_account'' \<mapsto> ''false''))\<rparr>)
         ''111'' initial_gates []
   \<and> accountMoveEnabled
        (fst (Reconcile (example_reconciler\<lparr>GetOperatorConfigMap :=
                           Inr (example_config(''feature.validation_move_account'' \<mapsto> ''yes'',
                                               ''feature.validation_tag_account'' \<mapsto> ''1''))\<rparr>)
                ''111'' \<lparr>accountMoveEnabled = True, accountTagEnabled = False\<rparr> [])) = True
   \<and> accountTagEnabled
        (fst (Reconcile (example_reconciler\<lparr>GetOperatorConfigMap :=
                           Inr (example_config(''feature.validation_move_account'' \<mapsto> ''yes'',
                                               ''feature.validation_tag_account'' \<mapsto> ''1''))\<rparr>)
                ''111'' \<lparr>accountMoveEnabled = True, accountTagEnabled = False\<rparr> [])) = True"
proof -
  let ?g1 = "fst (Reconcile example_reconciler ''111'' initial_gates [])"
  let ?c2 = "example_config(''feature.validation_move_account'' \<mapsto> ''yes'',
                            ''feature.validation_tag_account'' \<mapsto> ''1'')"
  let ?r2 = "example_reconciler\<lparr>GetOperatorConfigMap := Inr ?c2\<rparr>"
  let ?g = "\<lparr>accountMoveEnabled = True, accountTagEnabled = False\<rparr>"
  let ?g2 = "fst (Reconcile ?r2 ''111'' ?g [])"
  have s1: "Client_Get example_reconciler ''111'' = Inr (example_account ''111'') \<and>
            GetOperatorConfigMap example_reconciler = Inr example_config \<and> ?g1 = ?g1"
    by (simp add: example_reconciler_simps)
  have s2: "Client_Get ?r2 ''111'' = Inr (example_account ''111'') \<and>
            GetOperatorConfigMap ?r2 = Inr ?c2 \<and> ?g2 = ?g2"
    by (simp add: example_reconciler_simps)
  have p1: "ParseBool (Data example_config ''feature.validation_move_account'') = Inr True"
    by (rule example_config_simps)
  have p2: "example_config ''feature.validation_tag_account'' = None"
    by (simp add: example_config_def)
  have p3: "\<exists>e. ParseBool (Data ?c2 ''feature.validation_move_account'') = Inl e"
    by (simp add: Data_update ParseBool_def)
  have p4: "ParseBool (Data ?c2 ''feature.validation_tag_account'') = Inr True"
    by (simp add: Data_update ParseBool_def)
  have k: "FormatBool False = ''false''"
    "accountTagEnabled initial_gates = False" "accountMoveEnabled ?g = True"
    by (simp_all add: initial_gates_def FormatBool_def)
  from Reconcile_feature_gates [of example_reconciler "''111''" "example_account ''111''"
      example_config ?g1 initial_gates "[]", THEN mp, OF s1] p1 p2
  have A: "accountMoveEnabled ?g1 = True \<and> accountTagEnabled ?g1 = accountTagEnabled initial_gates
        \<and> Reconcile example_reconciler ''111'' initial_gates [] =
          Reconcile (example_reconciler\<lparr>GetOperatorConfigMap :=
                       Inr (example_config(''feature.validation_tag_account'' \<mapsto>
                              FormatBool (accountTagEnabled initial_gates)))\<rparr>)
            ''111'' initial_gates []"
    by blast
  from Reconcile_feature_gates [of ?r2 "''111''" "example_account ''111''" ?c2 ?g2 ?g "[]",
      THEN mp, OF s2] p3 p4
  have B: "accountMoveEnabled ?g2 = accountMoveEnabled ?g \<and> accountTagEnabled ?g2 = True"
    by blast
  from A [unfolded k] B [unfolded k] show ?thesis
    by blast
qed

end
